theory Spec2Isabelle
  imports Complex_Main "HOL-Library.AList"
begin

section \<open>The training and evaluation driver main_story.py\<close>

text \<open>
  The file drives three collaborators it does not define: the tokenizer and the
  pretrained backbone with its optimizer (external libraries), and the modules
  data_utils, models and eval. Their results enter the model as the fields of an
  environment record; calls into them are assumed to return. What main_story.py itself
  does (its control flow, its local variables, the mode and gradient switches it flips,
  the files it writes, the Python exceptions its own expressions raise) is written out.
  Floating-point numbers are idealised as reals.
\<close>

subsection \<open>Exceptions\<close>

datatype error =
    AttributeError
  | ZeroDivisionError
  | IndexError
  | FileNotFoundError
  | NotADirectoryError
  | UnpicklingError
  | UnboundLocalError
  | RuntimeError
  | ValueError
  | FileExistsError

text \<open>A Python \<^verbatim>\<open>for\<close> loop whose body may raise: the first exception ends the loop.\<close>

fun for_loop :: "('x \<Rightarrow> 's \<Rightarrow> error + 's) \<Rightarrow> 'x list \<Rightarrow> 's \<Rightarrow> error + 's" where
  "for_loop body [] s = Inr s"
| "for_loop body (x # xs) s =
     (case body x s of Inl e \<Rightarrow> Inl e | Inr s' \<Rightarrow> for_loop body xs s')"

subsection \<open>The state the program acts on\<close>

text \<open>
  Gradients and parameters are kept symbolically. The gradient buffer records which
  losses have been back-propagated into it since it was last reset and whether it has
  been clipped; the parameters record every optimizer step that produced them, with the
  gradient buffer the step consumed and the number of scheduler steps taken before it
  (which fixes the learning rate of that step).
\<close>

datatype grad =
    NoGrad
  | Backward grad real
  | Clipped real grad

datatype params =
    Pretrained string
  | OptimizerStep params grad nat

datatype rng_source = PyRandom | NumpyRandom | TorchCPU | TorchCUDA

datatype line = MetricsLine real real real | OtherLine

datatype file_content =
    StateDict params
  | TextFile "line list"
  | RawPredictions "real list list list list"
  | Opaque

datatype dir = NotADirectory | Directory "(string \<times> file_content) list"

datatype out =
    PrintOutputDirExists string
  | PrintParamCount
  | PrintIterationLoss real
  | PrintFinalResultsHeader string int
  | PrintMetrics real real real

record world =
  training :: bool
  grad_enabled :: bool
  params :: params
  grad :: grad
  sched_steps :: nat
  rng_seed :: "rng_source \<Rightarrow> int option"
  dirs :: "string \<Rightarrow> dir option"
  stdout :: "out list"
  inference_log :: "(string \<times> int \<times> bool \<times> bool) list"

text \<open>
  \<open>training\<close> is the model's \<^verbatim>\<open>model.training\<close> flag, \<open>grad_enabled\<close> is
  \<^verbatim>\<open>torch.is_grad_enabled()\<close>. \<open>dirs\<close> maps a directory path to its entries
  (every file this program touches lies directly in its output directory).
  \<open>inference_log\<close> has one entry for each forward pass that test_model_conversion
  makes: the name and iteration it was called with, and the two flags at that moment.
\<close>

record args =
  output_dir :: string
  dataset_name :: string
  model :: string
  max_train_data :: string
  do_train :: bool
  do_eval :: bool
  per_gpu_train_batch_size :: int
  per_gpu_eval_batch_size :: int
  gradient_accumulation_steps :: int
  learning_rate :: real
  max_grad_norm :: real
  num_train_epochs :: int
  seed :: int
  n_gpu :: int
  device :: string

record sample =
  story_A_sentences :: "string list"
  story_B_sentences :: "string list"
  possible_participants_converted_to :: "string list"
  participant_converted :: string
  compact_states :: "int list list"

text \<open>
  The collaborators. \<open>'b\<close> is a training batch as the data loader collates it,
  \<open>'t\<close> an element of what make_timestep_sequence returns, \<open>'c\<close> the converted
  predictions. \<open>model_losses\<close> is the forward pass of line 104 (the three optional head
  losses), \<open>model_probs\<close> the forward pass of line 53 followed by the three softmax
  calls of line 55: for each head, the rows of probabilities. \<open>train_batches e\<close> are the batches the shuffling loader yields in epoch
  \<open>e\<close>.
\<close>

record ('b, 't, 'c) env =
  str_lower :: "string \<Rightarrow> string"
  str_float :: "real \<Rightarrow> string"
  tokenize :: "bool \<Rightarrow> string \<Rightarrow> string list"
  token_id :: "string \<Rightarrow> int"
  cls_token_id :: int
  sep_token_id :: int
  make_timestep_sequence :: "string list \<Rightarrow> string list list \<Rightarrow> 't list"
  model_losses :: "world \<Rightarrow> 'b \<Rightarrow> real option \<times> real option \<times> real option"
  model_probs :: "world \<Rightarrow> int list list \<Rightarrow> int list list \<Rightarrow> 't list \<Rightarrow> 't list
                    \<Rightarrow> real list list \<times> real list list \<times> real list list"
  convert_output_format_complete_conversion :: "file_content \<Rightarrow> string \<Rightarrow> 'c"
  official_evaluate :: "'c \<Rightarrow> string \<Rightarrow> real \<times> real \<times> real"
  train_len :: nat
  train_batches :: "nat \<Rightarrow> 'b list"
  dev_set :: "sample list"
  test_set :: "sample list"

subsection \<open>Strings and files\<close>

fun str_nat :: "nat \<Rightarrow> string" where
  "str_nat n =
     (if n < 10 then [''0123456789'' ! n]
      else str_nat (n div 10) @ [''0123456789'' ! (n mod 10)])"

declare str_nat.simps [simp del]

definition str_int :: "int \<Rightarrow> string" where
  "str_int i = (if i < 0 then ''-'' @ str_nat (nat (- i)) else str_nat (nat i))"

definition path_exists :: "world \<Rightarrow> string \<Rightarrow> bool" where
  "path_exists w p = (dirs w p \<noteq> None)"

text \<open>The proper prefixes of a path that end before a slash: its ancestors.\<close>

fun parents_aux :: "string \<Rightarrow> string \<Rightarrow> string list" where
  "parents_aux acc [] = []"
| "parents_aux acc (c # cs) =
     (if c = CHR ''/'' \<and> acc \<noteq> [] then [acc] else []) @ parents_aux (acc @ [c]) cs"

definition parents :: "string \<Rightarrow> string list" where
  "parents p = parents_aux [] p"

text \<open>
  \<^verbatim>\<open>os.makedirs\<close> raises when the path exists and when an ancestor is not a
  directory; it creates the missing ancestors. (The listing of an ancestor is left as it
  was: this program lists a directory only at line 188, before it creates anything.)
\<close>

definition makedirs :: "string \<Rightarrow> world \<Rightarrow> error + world" where
  "makedirs p w =
     (if dirs w p \<noteq> None then Inl FileExistsError
      else if list_ex (\<lambda>q. dirs w q = Some NotADirectory) (parents p)
      then Inl NotADirectoryError
      else Inr (w\<lparr>dirs :=
                  fold (\<lambda>q d. if d q = None then d(q \<mapsto> Directory []) else d)
                    (parents p @ [p]) (dirs w)\<rparr>))"

definition read_file :: "world \<Rightarrow> string \<Rightarrow> string \<Rightarrow> error + file_content" where
  "read_file w d name =
     (case dirs w d of
        None \<Rightarrow> Inl FileNotFoundError
      | Some NotADirectory \<Rightarrow> Inl NotADirectoryError
      | Some (Directory entries) \<Rightarrow>
          (case map_of entries name of
             None \<Rightarrow> Inl FileNotFoundError
           | Some f \<Rightarrow> Inr f))"

definition write_file :: "string \<Rightarrow> string \<Rightarrow> file_content \<Rightarrow> world \<Rightarrow> error + world" where
  "write_file d name f w =
     (case dirs w d of
        None \<Rightarrow> Inl FileNotFoundError
      | Some NotADirectory \<Rightarrow> Inl NotADirectoryError
      | Some (Directory entries) \<Rightarrow>
          Inr (w\<lparr>dirs := (dirs w)(d \<mapsto> Directory (AList.update name f entries))\<rparr>))"

text \<open>\<^verbatim>\<open>open(path, "a")\<close> and one written line: the file is created when missing.\<close>

definition append_line :: "string \<Rightarrow> string \<Rightarrow> line \<Rightarrow> world \<Rightarrow> error + world" where
  "append_line d name l w =
     (case dirs w d of
        None \<Rightarrow> Inl FileNotFoundError
      | Some NotADirectory \<Rightarrow> Inl NotADirectoryError
      | Some (Directory entries) \<Rightarrow>
          write_file d name
            (case map_of entries name of
               None \<Rightarrow> TextFile [l]
             | Some (TextFile ls) \<Rightarrow> TextFile (ls @ [l])
             | Some _ \<Rightarrow> Opaque) w)"

definition print_line :: "out \<Rightarrow> world \<Rightarrow> world" where
  "print_line l w = w\<lparr>stdout := stdout w @ [l]\<rparr>"

subsection \<open>set_seed (lines 17-22)\<close>

text \<open>
  \<^verbatim>\<open>random.seed\<close> takes any integer; \<^verbatim>\<open>np.random.seed\<close> raises for a seed outside
  0 .. 2^32 - 1, and then the lines after it are not reached; \<^verbatim>\<open>torch.manual_seed\<close>
  seeds the generators of every device, the CUDA ones included.
\<close>

definition set_seed :: "args \<Rightarrow> world \<Rightarrow> error + world" where
  "set_seed a w =
     (let r1 = (rng_seed w)(PyRandom \<mapsto> seed a) in
      if seed a < 0 \<or> 4294967295 < seed a then Inl ValueError
      else
        (let r2 = r1(NumpyRandom \<mapsto> seed a);
             r3 = r2(TorchCPU \<mapsto> seed a, TorchCUDA \<mapsto> seed a);
             r4 = (if n_gpu a > 0 then r3(TorchCUDA \<mapsto> seed a) else r3)
         in Inr (w\<lparr>rng_seed := r4\<rparr>)))"

subsection \<open>test_model_conversion (lines 24-64)\<close>

text \<open>Line 33; the index into the candidate list raises when the list is too short.\<close>

definition build_question :: "sample \<Rightarrow> nat \<Rightarrow> error + string" where
  "build_question smp entity_id =
     (let cands = possible_participants_converted_to smp in
      if entity_id < length cands
      then Inr (participant_converted smp @ ''?!</s>'' @ cands ! entity_id @ ''?!</s>'')
      else Inl IndexError)"

text \<open>Lines 37-44 for one story variant.\<close>

definition para_ids :: "('b, 't, 'c) env \<Rightarrow> string list \<Rightarrow> string list list \<Rightarrow> int list" where
  "para_ids env question_tokens sentence_tokens =
     (let para_tokens = foldl (\<lambda>para sent. para @ sent) question_tokens sentence_tokens
      in [cls_token_id env] @ map (token_id env) para_tokens @ [sep_token_id env])"

text \<open>Lines 45-46: a Python slice \<^verbatim>\<open>[1:]\<close> never raises.\<close>

definition timestep_ids :: "('b, 't, 'c) env \<Rightarrow> string list \<Rightarrow> string list list \<Rightarrow> 't list" where
  "timestep_ids env question_tokens sentence_tokens =
     drop 1 (make_timestep_sequence env question_tokens sentence_tokens)"

text \<open>
  The body of the loop of line 32, on the pair of \<open>sample_pred\<close> and the world. The
  index \<^verbatim>\<open>[0]\<close> of line 55 raises when a head has no row.
\<close>

definition entity_step ::
  "('b, 't, 'c) env \<Rightarrow> string \<Rightarrow> int \<Rightarrow> sample \<Rightarrow> nat \<times> int list
     \<Rightarrow> real list list list \<times> world \<Rightarrow> error + (real list list list \<times> world)" where
  "entity_step env name iteration smp = (\<lambda>(entity_id, states) (sample_pred, w).
     case build_question smp entity_id of
       Inl e \<Rightarrow> Inl e
     | Inr question \<Rightarrow>
         (let question_tokens = tokenize env False (str_lower env question);
              sentence_tokens_A =
                map (\<lambda>sent. tokenize env True (str_lower env sent)) (story_A_sentences smp);
              sentence_tokens_B =
                map (\<lambda>sent. tokenize env True (str_lower env sent)) (story_B_sentences smp);
              para_ids_A = para_ids env question_tokens sentence_tokens_A;
              para_ids_B = para_ids env question_tokens sentence_tokens_B;
              timestep_ids_A = timestep_ids env question_tokens sentence_tokens_A;
              timestep_ids_B = timestep_ids env question_tokens sentence_tokens_B;
              batch_input_A = replicate (length timestep_ids_A) para_ids_A;
              batch_input_B = replicate (length timestep_ids_B) para_ids_B
          in case model_probs env w batch_input_A batch_input_B timestep_ids_A timestep_ids_B of
               (row0 # rest0, row1 # rest1, row2 # rest2) \<Rightarrow>
                 Inr (sample_pred @ [[row0, row1, row2]],
                      w\<lparr>inference_log := inference_log w @
                           [(name, iteration, training w, grad_enabled w)]\<rparr>)
             | _ \<Rightarrow> Inl IndexError))"

text \<open>The body of the loop of line 26, on the pair of \<open>all_preds\<close> and the world.\<close>

definition sample_step ::
  "('b, 't, 'c) env \<Rightarrow> string \<Rightarrow> int \<Rightarrow> sample
     \<Rightarrow> real list list list list \<times> world \<Rightarrow> error + (real list list list list \<times> world)" where
  "sample_step env name iteration smp = (\<lambda>(all_preds, w).
     case for_loop (entity_step env name iteration smp)
            (enumerate 0 (compact_states smp)) ([], w) of
       Inl e \<Rightarrow> Inl e
     | Inr (sample_pred, w') \<Rightarrow> Inr (all_preds @ [sample_pred], w'))"

text \<open>The result is the triple in the order of line 64: verifiability, consistency, accuracy.\<close>

definition test_model_conversion ::
  "('b, 't, 'c) env \<Rightarrow> args \<Rightarrow> sample list \<Rightarrow> string \<Rightarrow> int \<Rightarrow> world
     \<Rightarrow> error + ((real \<times> real \<times> real) \<times> world)" where
  "test_model_conversion env a samples name iteration w =
     (case for_loop (sample_step env name iteration) samples ([], w) of
        Inl e \<Rightarrow> Inl e
      | Inr (all_preds, w1) \<Rightarrow>
          (let out_name = name @ ''_'' @ str_int iteration @ ''_output.json'';
               reference = ''../data/Propara/'' @ name @ ''.json''
           in case write_file (output_dir a) out_name (RawPredictions all_preds) w1 of
                Inl e \<Rightarrow> Inl e
              | Inr w2 \<Rightarrow>
                  (let w3 = print_line (PrintFinalResultsHeader name iteration) w2
                   in case read_file w3 (output_dir a) out_name of
                        Inl e \<Rightarrow> Inl e
                      | Inr raw \<Rightarrow>
                          (let converted_results =
                                 convert_output_format_complete_conversion env raw reference
                           in case official_evaluate env converted_results reference of
                                (accuracy, consistency, verifiability) \<Rightarrow>
                                  Inr ((verifiability, consistency, accuracy),
                                       print_line
                                         (PrintMetrics accuracy consistency verifiability) w3)))))"

subsection \<open>train (lines 69-139)\<close>

text \<open>
  \<open>total_loss\<close> starts as the Python integer 0 (line 102) and becomes a tensor as soon
  as a head loss is added to it; only a tensor has \<^verbatim>\<open>backward\<close> and \<^verbatim>\<open>item\<close>.
\<close>

datatype py_loss = PyNumber real | Tensor real

fun loss_value :: "py_loss \<Rightarrow> real" where
  "loss_value (PyNumber x) = x"
| "loss_value (Tensor x) = x"

text \<open>One of the three tests of lines 106-113.\<close>

definition add_head_loss :: "py_loss \<Rightarrow> real option \<Rightarrow> py_loss" where
  "add_head_loss total_loss l =
     (case l of None \<Rightarrow> total_loss | Some x \<Rightarrow> Tensor (loss_value total_loss + x))"

definition sum_present_losses :: "real option \<times> real option \<times> real option \<Rightarrow> py_loss" where
  "sum_present_losses losses =
     (case losses of (l0, l1, l2) \<Rightarrow>
        add_head_loss (add_head_loss (add_head_loss (PyNumber 0) l0) l1) l2)"

text \<open>Lines 115-116.\<close>

definition scale_loss :: "int \<Rightarrow> py_loss \<Rightarrow> py_loss" where
  "scale_loss n total_loss =
     (if n > 1 then
        (case total_loss of
           PyNumber x \<Rightarrow> PyNumber (x / real_of_int n)
         | Tensor x \<Rightarrow> Tensor (x / real_of_int n))
      else total_loss)"

definition backward :: "real \<Rightarrow> world \<Rightarrow> world" where
  "backward v w = w\<lparr>grad := Backward (grad w) v\<rparr>"

definition clip_grad_norm :: "real \<Rightarrow> world \<Rightarrow> world" where
  "clip_grad_norm c w = w\<lparr>grad := Clipped c (grad w)\<rparr>"

definition optimizer_step :: "world \<Rightarrow> world" where
  "optimizer_step w = w\<lparr>params := OptimizerStep (params w) (grad w) (sched_steps w)\<rparr>"

definition scheduler_step :: "world \<Rightarrow> world" where
  "scheduler_step w = w\<lparr>sched_steps := Suc (sched_steps w)\<rparr>"

definition zero_grad :: "world \<Rightarrow> world" where
  "zero_grad w = w\<lparr>grad := NoGrad\<rparr>"

text \<open>Lines 120-123.\<close>

definition optimizer_update :: "args \<Rightarrow> world \<Rightarrow> world" where
  "optimizer_update a w =
     zero_grad (scheduler_step (optimizer_step (clip_grad_norm (max_grad_norm a) w)))"

text \<open>
  The body of the loop of line 101, on the world, \<open>global_step\<close> and \<open>it_total_loss\<close>.
  A loss computed while gradient tracking is off cannot be back-propagated; the
  remainder of line 119 raises on a zero divisor.
\<close>

definition train_batch_step ::
  "('b, 't, 'c) env \<Rightarrow> args \<Rightarrow> 'b \<Rightarrow> world \<times> int \<times> real \<Rightarrow> error + (world \<times> int \<times> real)" where
  "train_batch_step env a batch = (\<lambda>(w, global_step, it_total_loss).
     let n = gradient_accumulation_steps a;
         total_loss = scale_loss n (sum_present_losses (model_losses env w batch))
     in case total_loss of
          PyNumber x \<Rightarrow> Inl AttributeError
        | Tensor v \<Rightarrow>
            if \<not> grad_enabled w then Inl RuntimeError
            else if n = 0 then Inl ZeroDivisionError
            else
              (let w1 = backward v w;
                   w2 = (if (global_step + 1) mod n = 0 then optimizer_update a w1 else w1)
               in Inr (w2, global_step + 1, it_total_loss + v)))"

text \<open>\<^verbatim>\<open>with torch.no_grad():\<close> switches tracking off and restores it on the way out.\<close>

definition no_grad :: "(world \<Rightarrow> error + ('x \<times> world)) \<Rightarrow> world \<Rightarrow> error + ('x \<times> world)" where
  "no_grad body w =
     (case body (w\<lparr>grad_enabled := False\<rparr>) of
        Inl e \<Rightarrow> Inl e
      | Inr (x, w') \<Rightarrow> Inr (x, w'\<lparr>grad_enabled := grad_enabled w\<rparr>))"

text \<open>Lines 92-97 (with iteration 0) and lines 130-135; the result is the verifiability.\<close>

definition dev_evaluation ::
  "('b, 't, 'c) env \<Rightarrow> args \<Rightarrow> int \<Rightarrow> world \<Rightarrow> error + (real \<times> world)" where
  "dev_evaluation env a iteration w =
     (case no_grad (test_model_conversion env a (dev_set env) ''dev_conversion'' iteration)
             (w\<lparr>training := False\<rparr>) of
        Inl e \<Rightarrow> Inl e
      | Inr ((verifiability, consistency, accuracy), w1) \<Rightarrow>
          (case append_line (output_dir a) ''results_epoch_dev.json''
                  (MetricsLine accuracy consistency verifiability) w1 of
             Inl e \<Rightarrow> Inl e
           | Inr w2 \<Rightarrow> Inr (verifiability, w2)))"

text \<open>Lines 137-139, on the world and \<open>best_verifiability\<close>.\<close>

definition checkpoint_decision ::
  "args \<Rightarrow> real \<Rightarrow> world \<times> real \<Rightarrow> error + (world \<times> real)" where
  "checkpoint_decision a verifiability = (\<lambda>(w, best_verifiability).
     if verifiability \<ge> best_verifiability then
       (case write_file (output_dir a) ''best_model'' (StateDict (params w)) w of
          Inl e \<Rightarrow> Inl e
        | Inr w' \<Rightarrow> Inr (w', verifiability))
     else Inr (w, best_verifiability))"

text \<open>Lines 91-135 of one epoch: everything before the checkpoint decision.\<close>

definition epoch_until_checkpoint ::
  "('b, 't, 'c) env \<Rightarrow> args \<Rightarrow> nat \<Rightarrow> world \<times> int \<Rightarrow> error + (real \<times> world \<times> int)" where
  "epoch_until_checkpoint env a iteration = (\<lambda>(w, global_step).
     case (if iteration = 0 then
             (case dev_evaluation env a 0 w of Inl e \<Rightarrow> Inl e | Inr (v, w') \<Rightarrow> Inr w')
           else Inr w) of
       Inl e \<Rightarrow> Inl e
     | Inr w1 \<Rightarrow>
         (case for_loop (train_batch_step env a) (train_batches env iteration)
                 (w1\<lparr>training := True\<rparr>, global_step, 0) of
            Inl e \<Rightarrow> Inl e
          | Inr (w2, global_step', it_total_loss) \<Rightarrow>
              (case dev_evaluation env a (int iteration + 1)
                      (print_line (PrintIterationLoss it_total_loss) w2) of
                 Inl e \<Rightarrow> Inl e
               | Inr (verifiability, w3) \<Rightarrow> Inr (verifiability, w3, global_step'))))"

text \<open>The body of the loop of line 89, on the world, \<open>best_verifiability\<close> and \<open>global_step\<close>.\<close>

definition train_epoch ::
  "('b, 't, 'c) env \<Rightarrow> args \<Rightarrow> nat \<Rightarrow> world \<times> real \<times> int \<Rightarrow> error + (world \<times> real \<times> int)" where
  "train_epoch env a iteration = (\<lambda>(w, best_verifiability, global_step).
     case epoch_until_checkpoint env a iteration (w, global_step) of
       Inl e \<Rightarrow> Inl e
     | Inr (verifiability, w3, global_step') \<Rightarrow>
         (case checkpoint_decision a verifiability (w3, best_verifiability) of
            Inl e \<Rightarrow> Inl e
          | Inr (w4, best') \<Rightarrow> Inr (w4, best', global_step')))"

text \<open>
  Lines 80-89: the floor division of line 81 raises on a zero window; a new scheduler
  is created; \<open>best_verifiability\<close> starts at -1 and \<open>global_step\<close> at 0.
\<close>

definition train_loop ::
  "('b, 't, 'c) env \<Rightarrow> args \<Rightarrow> world \<Rightarrow> error + (world \<times> real \<times> int)" where
  "train_loop env a w =
     (if gradient_accumulation_steps a = 0 then Inl ZeroDivisionError
      else for_loop (train_epoch env a) [0..<nat (num_train_epochs a)]
             (w\<lparr>sched_steps := 0\<rparr>, - 1, 0))"

definition train :: "('b, 't, 'c) env \<Rightarrow> args \<Rightarrow> world \<Rightarrow> error + world" where
  "train env a w =
     (case train_loop env a w of Inl e \<Rightarrow> Inl e | Inr (w', best, global_step) \<Rightarrow> Inr w')"

subsection \<open>main (lines 141-219)\<close>

definition new_out_dir :: "('b, 't, 'c) env \<Rightarrow> args \<Rightarrow> string" where
  "new_out_dir env a =
     output_dir a @ ''/'' @ dataset_name a @ ''_'' @ model a @ ''_epochs_'' @
     str_int (num_train_epochs a) @ ''_lr_'' @ str_float env (learning_rate a) @
     ''_seed_'' @ str_int (seed a)"

text \<open>Lines 184-186.\<close>

definition select_output_dir :: "('b, 't, 'c) env \<Rightarrow> args \<Rightarrow> world \<Rightarrow> args" where
  "select_output_dir env a w =
     (if do_train a \<or> (\<not> do_train a \<and> path_exists w (new_out_dir env a))
      then a\<lparr>output_dir := new_out_dir env a\<rparr> else a)"

text \<open>
  Lines 188-189. The conjunction is evaluated left to right: \<^verbatim>\<open>os.listdir\<close> runs
  whenever the path exists, and raises when the path is not a directory.
\<close>

definition output_dir_warning :: "args \<Rightarrow> world \<Rightarrow> error + world" where
  "output_dir_warning a w =
     (case dirs w (output_dir a) of
        None \<Rightarrow> Inr w
      | Some NotADirectory \<Rightarrow> Inl NotADirectoryError
      | Some (Directory entries) \<Rightarrow>
          Inr (if entries \<noteq> [] \<and> do_train a
               then print_line (PrintOutputDirExists (output_dir a)) w else w))"

text \<open>\<^verbatim>\<open>os.system("cp ...")\<close> returns a status and never raises.\<close>

definition copy_script :: "string \<Rightarrow> args \<Rightarrow> world \<Rightarrow> world" where
  "copy_script name a w =
     (case write_file (output_dir a) name Opaque w of Inl e \<Rightarrow> w | Inr w' \<Rightarrow> w')"

text \<open>Lines 197-200.\<close>

definition save_provenance :: "args \<Rightarrow> world \<Rightarrow> error + world" where
  "save_provenance a w =
     write_file (output_dir a) ''training_args.bin'' Opaque
       (copy_script ''models.py'' a
          (copy_script ''data_utils.py'' a (copy_script ''main_story.py'' a w)))"

text \<open>
  Lines 203-209. Neither branch binds \<open>model\<close> for another name, and line 207 then
  raises. The library returns the loaded model in evaluation mode.
\<close>

definition from_pretrained :: "args \<Rightarrow> world \<Rightarrow> error + world" where
  "from_pretrained a w =
     (if model a = ''baseline-mixed'' \<or> model a = ''top-down''
      then Inr (print_line PrintParamCount
                  (w\<lparr>params := Pretrained (model a), grad := NoGrad, training := False\<rparr>))
      else Inl UnboundLocalError)"

text \<open>Lines 213-219.\<close>

definition final_evaluation :: "('b, 't, 'c) env \<Rightarrow> args \<Rightarrow> world \<Rightarrow> error + world" where
  "final_evaluation env a w =
     (case read_file w (output_dir a) ''best_model'' of
        Inl e \<Rightarrow> Inl e
      | Inr (StateDict p) \<Rightarrow>
          (case test_model_conversion env a (test_set env) ''test_conversion'' (- 1)
                  (w\<lparr>params := p\<rparr>) of
             Inl e \<Rightarrow> Inl e
           | Inr ((verifiability, consistency, accuracy), w1) \<Rightarrow>
               append_line (output_dir a) ''final_test_results.json''
                 (MetricsLine accuracy consistency verifiability) w1)
      | Inr _ \<Rightarrow> Inl UnpicklingError)"

text \<open>Lines 191-219.\<close>

definition main_after_check :: "('b, 't, 'c) env \<Rightarrow> args \<Rightarrow> world \<Rightarrow> error + world" where
  "main_after_check env a0 w0 =
     (let a = a0\<lparr>n_gpu := 1, device := ''cuda:0''\<rparr>
      in case (if \<not> path_exists w0 (output_dir a) then makedirs (output_dir a) w0
               else Inr w0) of
           Inl e \<Rightarrow> Inl e
         | Inr w1 \<Rightarrow>
             (case (if do_train a then save_provenance a w1 else Inr w1) of
                Inl e \<Rightarrow> Inl e
              | Inr w2 \<Rightarrow>
                  (case set_seed a w2 of
                     Inl e \<Rightarrow> Inl e
                   | Inr ws \<Rightarrow>
                       (case from_pretrained a ws of
                          Inl e \<Rightarrow> Inl e
                        | Inr w3 \<Rightarrow>
                            (case (if do_train a then train env a w3 else Inr w3) of
                               Inl e \<Rightarrow> Inl e
                             | Inr w4 \<Rightarrow>
                                 if do_eval a then final_evaluation env a w4
                                 else Inr w4)))))"

definition main :: "('b, 't, 'c) env \<Rightarrow> args \<Rightarrow> world \<Rightarrow> error + world" where
  "main env a0 w =
     (let a = select_output_dir env a0 w
      in case output_dir_warning a w of
           Inl e \<Rightarrow> Inl e
         | Inr w1 \<Rightarrow> main_after_check env a w1)"

subsection \<open>Observations on the symbolic state\<close>

text \<open>The number of losses back-propagated into a gradient buffer since its last reset.\<close>

fun pending :: "grad \<Rightarrow> nat" where
  "pending NoGrad = 0"
| "pending (Backward g v) = Suc (pending g)"
| "pending (Clipped c g) = pending g"

text \<open>The number of optimizer steps behind a parameter state.\<close>

fun num_steps :: "params \<Rightarrow> nat" where
  "num_steps (Pretrained name) = 0"
| "num_steps (OptimizerStep p g k) = Suc (num_steps p)"


text \<open>What the model, the gradient switch, the optimizer and the scheduler hold.\<close>

definition torch_state :: "world \<Rightarrow> bool \<times> bool \<times> params \<times> grad \<times> nat" where
  "torch_state w = (training w, grad_enabled w, params w, grad w, sched_steps w)"

text \<open>
  The forward passes logged between two worlds were all made for this name and
  iteration, under the flags of the first world.
\<close>

definition logged_with ::
  "string \<Rightarrow> int \<Rightarrow> world \<Rightarrow> world \<Rightarrow> bool" where
  "logged_with name it w w' =
     (\<exists>k. inference_log w' =
            inference_log w @ replicate k (name, it, training w, grad_enabled w))"

subsection \<open>A small configuration to run the model on\<close>

definition demo_sample :: sample where
  "demo_sample = \<lparr>story_A_sentences = [''Water evaporates.''],
                   story_B_sentences = [''Ice melts.''],
                   possible_participants_converted_to = [''vapor''],
                   participant_converted = ''water'',
                   compact_states = [[0, 1]]\<rparr>"

text \<open>
  Three batches in every epoch; the dev and test sets hold one sample with one entity;
  the scorer returns the first predicted probability as each of the three metrics.
\<close>

definition demo_env :: "(nat, nat, real) env" where
  "demo_env = \<lparr>str_lower = (\<lambda>s. s),
                str_float = (\<lambda>r. ''5e-06''),
                tokenize = (\<lambda>prefix s. [s]),
                token_id = (\<lambda>t. int (length t)),
                cls_token_id = 0,
                sep_token_id = 2,
                make_timestep_sequence = (\<lambda>q sents. replicate (Suc (Suc (length sents))) 0),
                model_losses = (\<lambda>w b. (Some 1, None, Some (real b))),
                model_probs = (\<lambda>w ia ib ta tb. ([[1 / 2]], [[1 / 2]], [[1 / 2]])),
                convert_output_format_complete_conversion =
                  (\<lambda>f reference.
                     case f of RawPredictions ((((x # _) # _) # _) # _) \<Rightarrow> x | _ \<Rightarrow> 0),
                official_evaluate = (\<lambda>c reference. (c, c, c)),
                train_len = 3,
                train_batches = (\<lambda>e. [1, 2, 3]),
                dev_set = [demo_sample],
                test_set = [demo_sample]\<rparr>"

definition demo_args :: args where
  "demo_args = \<lparr>output_dir = ''out'', dataset_name = ''propara-conversion'',
                 model = ''baseline-mixed'', max_train_data = ''5'',
                 do_train = True, do_eval = False,
                 per_gpu_train_batch_size = 1, per_gpu_eval_batch_size = 1,
                 gradient_accumulation_steps = 2, learning_rate = 5 / 1000000,
                 max_grad_norm = 1, num_train_epochs = 2, seed = 42,
                 n_gpu = 1, device = ''cuda:0''\<rparr>"

definition demo_world :: world where
  "demo_world = \<lparr>training = False, grad_enabled = True,
                  params = Pretrained ''baseline-mixed'', grad = NoGrad, sched_steps = 0,
                  rng_seed = (\<lambda>s. None),
                  dirs = (\<lambda>p. if p = ''out'' then Some (Directory []) else None),
                  stdout = [], inference_log = []\<rparr>"

text \<open>
  An evaluation-only invocation on an output directory that already holds a file; a
  training invocation whose derived output directory already holds a checkpoint; and a
  training invocation followed by the final test evaluation.
\<close>

definition eval_only_args :: args where
  "eval_only_args = demo_args\<lparr>do_train := False, do_eval := False\<rparr>"

definition used_world :: world where
  "used_world =
     demo_world\<lparr>dirs := (\<lambda>p.
       if p = ''out'' then Some (Directory [(''notes.txt'', Opaque)]) else None)\<rparr>"

definition rerun_world :: world where
  "rerun_world = demo_world\<lparr>dirs := (\<lambda>p.
     if p = ''out/propara-conversion_baseline-mixed_epochs_2_lr_5e-06_seed_42''
     then Some (Directory [(''best_model'', StateDict (Pretrained ''baseline-mixed''))])
     else None)\<rparr>"

definition train_eval_args :: args where
  "train_eval_args = demo_args\<lparr>do_eval := True\<rparr>"

text \<open>
  A model that finds no applicable label for any head of batch 2, and a model whose
  first head loss is the seed of the CPU generator.
\<close>

definition absent_env :: "(nat, nat, real) env" where
  "absent_env =
     demo_env\<lparr>model_losses := (\<lambda>w b.
       if b = 2 then (None, None, None) else (Some 1, None, Some (real b)))\<rparr>"


section \<open>Properties\<close>

lemmas demo_defs = demo_env_def demo_args_def demo_world_def demo_sample_def

lemmas step_defs = train_batch_step_def sum_present_losses_def add_head_loss_def
  scale_loss_def backward_def optimizer_update_def zero_grad_def scheduler_step_def
  optimizer_step_def clip_grad_norm_def

lemmas eval_defs = test_model_conversion_def sample_step_def entity_step_def
  build_question_def para_ids_def timestep_ids_def write_file_def read_file_def
  append_line_def print_line_def dev_evaluation_def no_grad_def str_int_def

lemmas train_defs = train_epoch_def epoch_until_checkpoint_def checkpoint_decision_def

lemmas main_defs = main_def main_after_check_def select_output_dir_def output_dir_warning_def
  new_out_dir_def path_exists_def makedirs_def parents_def save_provenance_def copy_script_def
  from_pretrained_def set_seed_def final_evaluation_def train_def train_loop_def

subsection \<open>Iteration\<close>

lemma for_loop_append:
  "for_loop body (xs @ ys) s =
     (case for_loop body xs s of Inl e \<Rightarrow> Inl e | Inr s' \<Rightarrow> for_loop body ys s')"
  by (induction xs arbitrary: s) (auto split: sum.splits)

lemma for_loop_split:
  assumes "for_loop body (xs @ ys) s = Inr s'"
  obtains s1 where "for_loop body xs s = Inr s1" and "for_loop body ys s1 = Inr s'"
  using assms by (auto simp add: for_loop_append split: sum.splits)

lemma result_cases:
  assumes "\<not> isl r"
  obtains x where "r = Inr x"
  using assms by (cases r) auto

subsection \<open>The loss of a batch\<close>

lemma sum_present_value:
  "loss_value (sum_present_losses (l0, l1, l2)) =
     sum_list (map the (filter (\<lambda>l. l \<noteq> None) [l0, l1, l2]))"
  by (cases l0; cases l1; cases l2) (simp_all add: sum_present_losses_def add_head_loss_def)

lemma sum_present_number:
  "(sum_present_losses (l0, l1, l2) = PyNumber 0) = (l0 = None \<and> l1 = None \<and> l2 = None)"
  by (cases l0; cases l1; cases l2) (simp_all add: sum_present_losses_def add_head_loss_def)

lemma scale_tensor:
  "1 \<le> n \<Longrightarrow> scale_loss n (Tensor s) = Tensor (s / real_of_int n)"
  by (cases "n = 1") (simp_all add: scale_loss_def)

lemma scale_number:
  "scale_loss n (PyNumber s) = PyNumber (if n > 1 then s / real_of_int n else s)"
  by (simp_all add: scale_loss_def)

lemma all_heads_absent_raises:
  "model_losses env w b = (None, None, None) \<Longrightarrow>
     train_batch_step env a b (w, g, t) = Inl AttributeError"
  by (simp add: train_batch_step_def sum_present_losses_def add_head_loss_def scale_number)

text \<open>
  C3 at a batch for which no head has an applicable label. A batch with some heads absent
  is summed over the present ones and processed (batch 1 below, and the lemmas
  \<open>sum_present_value\<close> and \<open>sum_present_number\<close>); but when all three are absent the total is still the Python number 0 of line
  102, and \<^verbatim>\<open>total_loss.backward()\<close> of line 117 raises AttributeError, which ends
  the training run.
\<close>

theorem batch_without_labels_raises:
  "model_losses absent_env demo_world 1 = (Some 1, None, Some 1)
   \<and> \<not> isl (train_batch_step absent_env demo_args 1 (demo_world, 0, 0))
   \<and> model_losses absent_env demo_world 2 = (None, None, None)
   \<and> train_batch_step absent_env demo_args 2 (demo_world, 0, 0) = Inl AttributeError
   \<and> train absent_env demo_args demo_world = Inl AttributeError"
  by (simp add: absent_env_def demo_defs step_defs eval_defs train_defs train_def train_loop_def
      Let_def str_nat.simps enumerate_eq_zip upt_rec)

subsection \<open>One batch of the training loop\<close>

lemma batch_step_cases:
  assumes "1 \<le> gradient_accumulation_steps a"
    and "train_batch_step env a b (w, g, t) = Inr (w', g', t')"
  shows "\<exists>s. sum_present_losses (model_losses env w b) = Tensor s
           \<and> grad_enabled w
           \<and> g' = g + 1
           \<and> t' = t + s / real_of_int (gradient_accumulation_steps a)
           \<and> w' = (if (g + 1) mod gradient_accumulation_steps a = 0
                   then w\<lparr>grad := NoGrad,
                          params := OptimizerStep (params w)
                            (Clipped (max_grad_norm a)
                               (Backward (grad w)
                                  (s / real_of_int (gradient_accumulation_steps a))))
                            (sched_steps w),
                          sched_steps := Suc (sched_steps w)\<rparr>
                   else w\<lparr>grad := Backward (grad w)
                                   (s / real_of_int (gradient_accumulation_steps a))\<rparr>)"
proof (cases "sum_present_losses (model_losses env w b)")
  case (PyNumber x)
  with assms show ?thesis
    by (simp add: train_batch_step_def scale_number Let_def)
next
  case (Tensor s)
  with assms show ?thesis
    by (auto simp add: train_batch_step_def scale_tensor Let_def optimizer_update_def
        zero_grad_def scheduler_step_def optimizer_step_def clip_grad_norm_def backward_def
        split: if_splits)
qed

lemma batches_global_step:
  "for_loop (train_batch_step env a) bs (w, g, t) = Inr (w', g', t') \<Longrightarrow>
     g' = g + int (length bs)"
proof (induction bs arbitrary: w g t)
  case Nil
  then show ?case by simp
next
  case (Cons b bs)
  from Cons.prems obtain w1 g1 t1 where
    s1: "train_batch_step env a b (w, g, t) = Inr (w1, g1, t1)" and
    r1: "for_loop (train_batch_step env a) bs (w1, g1, t1) = Inr (w', g', t')"
    by (auto split: sum.splits)
  from s1 have "g1 = g + 1"
    by (auto simp add: train_batch_step_def Let_def split: py_loss.splits if_splits)
  with Cons.IH [OF r1] show ?case by simp
qed

text \<open>
  C4. In a run of the batch loop that gets through a batch, with an accumulation window
  N of at least 1: the loss handed to the backward pass is the summed loss divided by N;
  \<open>global_step\<close> has counted the batches before it; and exactly when the number of this
  batch (counted from 1, continuing from the \<open>global_step\<close> the loop started with) is a
  multiple of N, the accumulated gradient is clipped to \<open>max_grad_norm\<close>, the optimizer
  steps on the clipped gradient, the scheduler steps, and the gradient is reset. On every
  other batch the only change is that the gradient buffer has accumulated the new loss.
\<close>

theorem accumulation_window_cadence:
  assumes window: "1 \<le> gradient_accumulation_steps a"
    and run: "for_loop (train_batch_step env a) (bs @ [b]) (w0, g0, t0) = Inr (w'', g'', t'')"
  shows "\<exists>w' t' s.
           for_loop (train_batch_step env a) bs (w0, g0, t0) = Inr (w', g0 + int (length bs), t')
         \<and> sum_present_losses (model_losses env w' b) = Tensor s
         \<and> g'' = g0 + int (length bs) + 1
         \<and> t'' = t' + s / real_of_int (gradient_accumulation_steps a)
         \<and> w'' = (if (g0 + int (length bs) + 1) mod gradient_accumulation_steps a = 0
                  then w'\<lparr>grad := NoGrad,
                          params := OptimizerStep (params w')
                            (Clipped (max_grad_norm a)
                               (Backward (grad w')
                                  (s / real_of_int (gradient_accumulation_steps a))))
                            (sched_steps w'),
                          sched_steps := Suc (sched_steps w')\<rparr>
                  else w'\<lparr>grad := Backward (grad w')
                                   (s / real_of_int (gradient_accumulation_steps a))\<rparr>)"
proof -
  from run obtain w' g' t' where
    before: "for_loop (train_batch_step env a) bs (w0, g0, t0) = Inr (w', g', t')" and
    last: "train_batch_step env a b (w', g', t') = Inr (w'', g'', t'')"
    by (auto simp add: for_loop_append split: sum.splits)
  have g': "g' = g0 + int (length bs)"
    using before by (rule batches_global_step)
  from batch_step_cases [OF window last] g' before show ?thesis
    by auto
qed

theorem accumulation_window_cadence_witness:
  "1 \<le> gradient_accumulation_steps demo_args
   \<and> (\<exists>w' t'. for_loop (train_batch_step demo_env demo_args) [1] (demo_world, 0, 0) =
                Inr (w', 1, t')
        \<and> for_loop (train_batch_step demo_env demo_args) [1, 2] (demo_world, 0, 0) =
            Inr (w'\<lparr>grad := NoGrad,
                    params := OptimizerStep (params w')
                      (Clipped 1 (Backward (grad w') (3 / 2))) (sched_steps w'),
                    sched_steps := Suc (sched_steps w')\<rparr>, 2, t' + 3 / 2))"
proof -
  have window: "1 \<le> gradient_accumulation_steps demo_args"
    by (simp add: demo_args_def)
  have "\<not> isl (for_loop (train_batch_step demo_env demo_args) ([1] @ [2]) (demo_world, 0, 0))"
    by (simp add: demo_defs step_defs Let_def)
  then obtain w'' g'' t'' where
    run: "for_loop (train_batch_step demo_env demo_args) ([1] @ [2]) (demo_world, 0, 0) =
            Inr (w'', g'', t'')"
    by (metis result_cases prod_cases3)
  have l: "sum_present_losses (model_losses demo_env w 2) = Tensor 3" for w
    by (simp add: demo_env_def sum_present_losses_def add_head_loss_def)
  from accumulation_window_cadence [OF window run] l run window show ?thesis
    by (auto simp add: demo_args_def)
qed

subsection \<open>What evaluation and checkpointing leave alone\<close>

lemma for_loop_preserves:
  assumes step: "\<And>x s s'. body x s = Inr s' \<Longrightarrow> P s \<Longrightarrow> P s'"
    and run: "for_loop body xs s = Inr s'"
    and start: "P s"
  shows "P s'"
  using run start
proof (induction xs arbitrary: s)
  case Nil
  then show ?case by simp
next
  case (Cons x xs)
  from Cons.prems(1) obtain s1 where
    s1: "body x s = Inr s1" and rest: "for_loop body xs s1 = Inr s'"
    by (auto split: sum.splits)
  from step [OF s1 Cons.prems(2)] have "P s1" .
  with Cons.IH rest show ?case by blast
qed

lemma write_file_torch:
  "write_file d n f w = Inr w' \<Longrightarrow> torch_state w' = torch_state w"
  by (auto simp add: write_file_def torch_state_def split: option.splits dir.splits)

lemma append_line_torch:
  "append_line d n l w = Inr w' \<Longrightarrow> torch_state w' = torch_state w"
  by (auto simp add: append_line_def dest: write_file_torch split: option.splits dir.splits)

lemma print_line_torch: "torch_state (print_line l w) = torch_state w"
  by (simp add: print_line_def torch_state_def)

lemma entity_step_torch:
  "entity_step env name it smp x (sp, w) = Inr (sp', w') \<Longrightarrow> torch_state w' = torch_state w"
  by (cases x)
    (auto simp add: entity_step_def torch_state_def Let_def
      split: sum.splits prod.splits list.splits)

lemma entity_loop_torch:
  assumes "for_loop (entity_step env name it smp) xs (sp, w) = Inr (sp', w')"
  shows "torch_state w' = torch_state w"
proof -
  have "(\<lambda>(sp, v). torch_state v = torch_state w) (sp', w')"
    by (rule for_loop_preserves [where body = "entity_step env name it smp", OF _ assms])
      (auto dest: entity_step_torch)
  then show ?thesis by simp
qed

lemma sample_step_torch:
  "sample_step env name it smp (ap, w) = Inr (ap', w') \<Longrightarrow> torch_state w' = torch_state w"
  by (auto simp add: sample_step_def dest: entity_loop_torch split: sum.splits)

lemma sample_loop_torch:
  assumes "for_loop (sample_step env name it) xs (ap, w) = Inr (ap', w')"
  shows "torch_state w' = torch_state w"
proof -
  have "(\<lambda>(ap, v). torch_state v = torch_state w) (ap', w')"
    by (rule for_loop_preserves [where body = "sample_step env name it", OF _ assms])
      (auto dest: sample_step_torch)
  then show ?thesis by simp
qed

lemma test_model_conversion_torch:
  assumes "test_model_conversion env a samples name it w = Inr (r, w')"
  shows "torch_state w' = torch_state w"
proof -
  from assms obtain ap w1 w2 where
    l: "for_loop (sample_step env name it) samples ([], w) = Inr (ap, w1)" and
    wr: "write_file (output_dir a) (name @ ''_'' @ str_int it @ ''_output.json'')
           (RawPredictions ap) w1 = Inr w2" and
    w': "torch_state w' = torch_state w2"
    by (auto simp add: test_model_conversion_def Let_def print_line_torch
        split: sum.splits prod.splits)
  from sample_loop_torch [OF l] write_file_torch [OF wr] w' show ?thesis by simp
qed

lemma no_grad_tmc_torch:
  assumes "no_grad (test_model_conversion env a samples name it) w = Inr (r, w')"
  shows "torch_state w' = torch_state w"
proof -
  from assms obtain w1 where
    t: "test_model_conversion env a samples name it (w\<lparr>grad_enabled := False\<rparr>) = Inr (r, w1)"
    and w': "w' = w1\<lparr>grad_enabled := grad_enabled w\<rparr>"
    by (auto simp add: no_grad_def split: sum.splits)
  from test_model_conversion_torch [OF t] w' show ?thesis
    by (simp add: torch_state_def)
qed

lemma dev_evaluation_torch:
  assumes "dev_evaluation env a it w = Inr (v, w')"
  shows "torch_state w' = torch_state (w\<lparr>training := False\<rparr>)"
proof -
  from assms obtain r w1 l where
    t: "no_grad (test_model_conversion env a (dev_set env) ''dev_conversion'' it)
          (w\<lparr>training := False\<rparr>) = Inr (r, w1)" and
    ap: "append_line (output_dir a) ''results_epoch_dev.json'' l w1 = Inr w'"
    by (auto simp add: dev_evaluation_def split: sum.splits prod.splits)
  from no_grad_tmc_torch [OF t] append_line_torch [OF ap] show ?thesis
    by simp
qed

lemma checkpoint_decision_torch:
  "checkpoint_decision a v (w, best) = Inr (w', best') \<Longrightarrow> torch_state w' = torch_state w"
  by (auto simp add: checkpoint_decision_def dest: write_file_torch split: if_splits sum.splits)

subsection \<open>The accumulation window across batches and epochs\<close>

lemma window_div_mod:
  fixes g n :: int
  assumes "1 \<le> n"
  shows "(g + 1) mod n = 0 \<Longrightarrow> (g + 1) div n = g div n + 1"
    and "(g + 1) mod n \<noteq> 0 \<Longrightarrow> (g + 1) div n = g div n \<and> (g + 1) mod n = g mod n + 1"
proof -
  have n: "0 < n" using assms by simp
  have bound: "0 \<le> g mod n" "g mod n < n"
    using n by simp_all
  have split: "g + 1 = n * (g div n) + (g mod n + 1)"
    by simp
  show "(g + 1) div n = g div n + 1" if z: "(g + 1) mod n = 0"
  proof -
    have "g mod n + 1 = n"
    proof (rule ccontr)
      assume "g mod n + 1 \<noteq> n"
      with bound have lt: "g mod n + 1 < n" by simp
      have "(g + 1) mod n = (g mod n + 1) mod n"
        by (simp add: mod_add_left_eq)
      also have "\<dots> = g mod n + 1"
        using lt bound by simp
      finally show False using z bound by simp
    qed
    then have "g + 1 = n * (g div n + 1)"
      using split by (simp add: algebra_simps)
    then show ?thesis using n by (metis nonzero_mult_div_cancel_left less_irrefl)
  qed
  show "(g + 1) div n = g div n \<and> (g + 1) mod n = g mod n + 1" if nz: "(g + 1) mod n \<noteq> 0"
  proof -
    have "g mod n + 1 \<noteq> n"
    proof
      assume "g mod n + 1 = n"
      then have "g + 1 = n * (g div n + 1)"
        using split by (simp add: algebra_simps)
      then have "(g + 1) mod n = 0" by simp
      with nz show False by simp
    qed
    with bound have lt: "g mod n + 1 < n" by simp
    have m: "(g + 1) mod n = g mod n + 1"
      using lt bound by (metis mod_add_left_eq mod_pos_pos_trivial add_nonneg_nonneg zero_le_one)
    have "(g + 1) div n = g div n"
      using lt bound n split
      by (metis add.commute add_nonneg_nonneg div_mult_self2 div_pos_pos_trivial less_irrefl
          add.right_neutral zero_le_one)
    with m show ?thesis by simp
  qed
qed

lemma batch_step_accounting:
  assumes window: "1 \<le> gradient_accumulation_steps a"
    and step: "train_batch_step env a b (w, g, t) = Inr (w', g', t')"
    and inv: "int (pending (grad w)) = g mod gradient_accumulation_steps a"
  shows "int (pending (grad w')) = g' mod gradient_accumulation_steps a
       \<and> int (num_steps (params w')) =
           int (num_steps (params w)) +
           (g' div gradient_accumulation_steps a - g div gradient_accumulation_steps a)
       \<and> int (sched_steps w') =
           int (sched_steps w) +
           (g' div gradient_accumulation_steps a - g div gradient_accumulation_steps a)"
proof -
  let ?n = "gradient_accumulation_steps a"
  from batch_step_cases [OF window step] obtain s where
    g': "g' = g + 1" and
    w': "w' = (if (g + 1) mod ?n = 0
               then w\<lparr>grad := NoGrad,
                      params := OptimizerStep (params w)
                        (Clipped (max_grad_norm a) (Backward (grad w) (s / real_of_int ?n)))
                        (sched_steps w),
                      sched_steps := Suc (sched_steps w)\<rparr>
               else w\<lparr>grad := Backward (grad w) (s / real_of_int ?n)\<rparr>)"
    by blast
  show ?thesis
  proof (cases "(g + 1) mod ?n = 0")
    case True
    with window_div_mod(1) [OF window True] g' w' show ?thesis by simp
  next
    case False
    with window_div_mod(2) [OF window False] g' w' inv show ?thesis by simp
  qed
qed

lemma batches_accounting:
  assumes window: "1 \<le> gradient_accumulation_steps a"
  shows "for_loop (train_batch_step env a) bs (w, g, t) = Inr (w', g', t') \<Longrightarrow>
         int (pending (grad w)) = g mod gradient_accumulation_steps a \<Longrightarrow>
         int (pending (grad w')) = g' mod gradient_accumulation_steps a
       \<and> int (num_steps (params w')) =
           int (num_steps (params w)) +
           (g' div gradient_accumulation_steps a - g div gradient_accumulation_steps a)
       \<and> int (sched_steps w') =
           int (sched_steps w) +
           (g' div gradient_accumulation_steps a - g div gradient_accumulation_steps a)"
proof (induction bs arbitrary: w g t)
  case Nil
  then show ?case by simp
next
  case (Cons b bs)
  from Cons.prems(1) obtain w1 g1 t1 where
    s1: "train_batch_step env a b (w, g, t) = Inr (w1, g1, t1)" and
    r1: "for_loop (train_batch_step env a) bs (w1, g1, t1) = Inr (w', g', t')"
    by (auto split: sum.splits)
  from batch_step_accounting [OF window s1 Cons.prems(2)] Cons.IH [OF r1] show ?case
    by simp
qed

lemma epoch_until_checkpoint_batches:
  assumes "epoch_until_checkpoint env a e (w, g) = Inr (v, w3, g')"
  shows "\<exists>w1 w2 t. torch_state w1 = torch_state (w\<lparr>training := True\<rparr>)
           \<and> for_loop (train_batch_step env a) (train_batches env e) (w1, g, 0) = Inr (w2, g', t)
           \<and> torch_state w3 = torch_state (w2\<lparr>training := False\<rparr>)"
proof -
  from assms obtain w0 w2 t where
    pre: "(if e = 0 then
             (case dev_evaluation env a 0 w of Inl x \<Rightarrow> Inl x | Inr (v, w') \<Rightarrow> Inr w')
           else Inr w) = Inr w0" and
    loop: "for_loop (train_batch_step env a) (train_batches env e)
             (w0\<lparr>training := True\<rparr>, g, 0) = Inr (w2, g', t)" and
    ev: "dev_evaluation env a (int e + 1) (print_line (PrintIterationLoss t) w2) = Inr (v, w3)"
    by (auto simp add: epoch_until_checkpoint_def split: sum.splits prod.splits)
  from pre have "torch_state (w0\<lparr>training := True\<rparr>) = torch_state (w\<lparr>training := True\<rparr>)"
    by (auto simp add: torch_state_def dest!: dev_evaluation_torch split: if_splits sum.splits)
  moreover from dev_evaluation_torch [OF ev]
  have "torch_state w3 = torch_state (w2\<lparr>training := False\<rparr>)"
    by (simp add: torch_state_def print_line_def)
  ultimately show ?thesis using loop by blast
qed

lemma train_epoch_accounting:
  assumes window: "1 \<le> gradient_accumulation_steps a"
    and epoch: "train_epoch env a e (w, best, g) = Inr (w', best', g')"
    and inv: "int (pending (grad w)) = g mod gradient_accumulation_steps a"
  shows "g' = g + int (length (train_batches env e))
       \<and> int (pending (grad w')) = g' mod gradient_accumulation_steps a
       \<and> int (num_steps (params w')) =
           int (num_steps (params w)) +
           (g' div gradient_accumulation_steps a - g div gradient_accumulation_steps a)
       \<and> int (sched_steps w') =
           int (sched_steps w) +
           (g' div gradient_accumulation_steps a - g div gradient_accumulation_steps a)"
proof -
  from epoch obtain v w3 where
    u: "epoch_until_checkpoint env a e (w, g) = Inr (v, w3, g')" and
    c: "checkpoint_decision a v (w3, best) = Inr (w', best')"
    by (auto simp add: train_epoch_def split: sum.splits)
  from epoch_until_checkpoint_batches [OF u] obtain w1 w2 t where
    w1: "torch_state w1 = torch_state (w\<lparr>training := True\<rparr>)" and
    loop: "for_loop (train_batch_step env a) (train_batches env e) (w1, g, 0) = Inr (w2, g', t)" and
    w3: "torch_state w3 = torch_state (w2\<lparr>training := False\<rparr>)"
    by blast
  from w1 inv have inv1: "int (pending (grad w1)) = g mod gradient_accumulation_steps a"
    by (simp add: torch_state_def)
  from checkpoint_decision_torch [OF c] w3
  have same: "grad w' = grad w2" "params w' = params w2" "sched_steps w' = sched_steps w2"
    by (simp_all add: torch_state_def)
  from w1 have same1: "params w1 = params w" "sched_steps w1 = sched_steps w"
    by (simp_all add: torch_state_def)
  from batches_accounting [OF window loop inv1] batches_global_step [OF loop] same same1
  show ?thesis by simp
qed

lemma epochs_accounting:
  assumes window: "1 \<le> gradient_accumulation_steps a"
  shows "for_loop (train_epoch env a) es (w, best, g) = Inr (w', best', g') \<Longrightarrow>
         int (pending (grad w)) = g mod gradient_accumulation_steps a \<Longrightarrow>
         g' = g + (\<Sum>e\<leftarrow>es. int (length (train_batches env e)))
       \<and> int (pending (grad w')) = g' mod gradient_accumulation_steps a
       \<and> int (num_steps (params w')) =
           int (num_steps (params w)) +
           (g' div gradient_accumulation_steps a - g div gradient_accumulation_steps a)
       \<and> int (sched_steps w') =
           int (sched_steps w) +
           (g' div gradient_accumulation_steps a - g div gradient_accumulation_steps a)"
proof (induction es arbitrary: w best g)
  case Nil
  then show ?case by simp
next
  case (Cons e es)
  from Cons.prems(1) obtain w1 best1 g1 where
    s1: "train_epoch env a e (w, best, g) = Inr (w1, best1, g1)" and
    r1: "for_loop (train_epoch env a) es (w1, best1, g1) = Inr (w', best', g')"
    by (auto split: sum.splits)
  from train_epoch_accounting [OF window s1 Cons.prems(2)] Cons.IH [OF r1] show ?case
    by simp
qed

subsection \<open>Checkpoint selection\<close>

lemma read_after_write:
  "write_file d n f w = Inr w' \<Longrightarrow> read_file w' d n = Inr f"
  by (auto simp add: write_file_def read_file_def update_conv' split: option.splits dir.splits)

lemma checkpoint_decision_cases:
  assumes "checkpoint_decision a v (w3, best) = Inr (w', best')"
  shows "best \<le> best'"
    and "best \<le> v \<longrightarrow> best' = v
           \<and> write_file (output_dir a) ''best_model'' (StateDict (params w3)) w3 = Inr w'
           \<and> read_file w' (output_dir a) ''best_model'' = Inr (StateDict (params w3))"
    and "v < best \<longrightarrow> best' = best \<and> w' = w3"
  using assms
  by (auto simp add: checkpoint_decision_def read_after_write split: if_splits sum.splits)

lemma train_epoch_best_mono:
  "train_epoch env a e (w, best, g) = Inr (w', best', g') \<Longrightarrow> best \<le> best'"
  by (auto simp add: train_epoch_def dest: checkpoint_decision_cases(1) split: sum.splits)

lemma epochs_best_mono:
  "for_loop (train_epoch env a) es (w, best, g) = Inr (w', best', g') \<Longrightarrow> best \<le> best'"
proof (induction es arbitrary: w best g)
  case Nil
  then show ?case by simp
next
  case (Cons e es)
  from Cons.prems obtain w1 best1 g1 where
    s1: "train_epoch env a e (w, best, g) = Inr (w1, best1, g1)" and
    r1: "for_loop (train_epoch env a) es (w1, best1, g1) = Inr (w', best', g')"
    by (auto split: sum.splits)
  from train_epoch_best_mono [OF s1] Cons.IH [OF r1] show ?case by simp
qed

text \<open>
  C1. At the end of every epoch of the training loop, the checkpoint best_model is
  written with the parameters of that epoch and \<open>best_verifiability\<close> becomes the epoch's
  dev verifiability if that verifiability is greater than or equal to the best so far
  (so a tie overwrites: the file then holds the latest parameters); otherwise nothing is
  written and the best value stays. The best value never decreases over the epochs.
\<close>

theorem checkpoint_selection:
  assumes run: "for_loop (train_epoch env a) (es @ [e]) (w0, best0, g0) = Inr (w', best', g')"
  shows "\<exists>w best g v w3.
           for_loop (train_epoch env a) es (w0, best0, g0) = Inr (w, best, g)
         \<and> epoch_until_checkpoint env a e (w, g) = Inr (v, w3, g')
         \<and> best0 \<le> best \<and> best \<le> best'
         \<and> (best \<le> v \<longrightarrow> best' = v
              \<and> write_file (output_dir a) ''best_model'' (StateDict (params w3)) w3 = Inr w'
              \<and> read_file w' (output_dir a) ''best_model'' = Inr (StateDict (params w3)))
         \<and> (v < best \<longrightarrow> best' = best \<and> w' = w3)"
proof -
  from run obtain w best g where
    before: "for_loop (train_epoch env a) es (w0, best0, g0) = Inr (w, best, g)" and
    last: "train_epoch env a e (w, best, g) = Inr (w', best', g')"
    by (auto simp add: for_loop_append split: sum.splits)
  from last obtain v w3 where
    u: "epoch_until_checkpoint env a e (w, g) = Inr (v, w3, g')" and
    c: "checkpoint_decision a v (w3, best) = Inr (w', best')"
    by (auto simp add: train_epoch_def split: sum.splits)
  from epochs_best_mono [OF before] checkpoint_decision_cases [OF c] before u show ?thesis
    by blast
qed

lemma demo_dev_verifiability:
  assumes "dev_evaluation demo_env a it w = Inr (v, w')"
  shows "v = 1 / 2"
  using assms
  by (auto simp add: demo_env_def demo_sample_def eval_defs Let_def enumerate_eq_zip update_conv'
      split: sum.splits option.splits dir.splits prod.splits if_splits)

lemma demo_epoch_verifiability:
  assumes "epoch_until_checkpoint demo_env a e (w, g) = Inr (v, w3, g')"
  shows "v = 1 / 2"
  using assms
  by (auto simp add: epoch_until_checkpoint_def dest: demo_dev_verifiability
      split: sum.splits prod.splits)

lemma demo_run_two:
  "\<not> isl (for_loop (train_epoch demo_env demo_args) [0, 1] (demo_world\<lparr>sched_steps := 0\<rparr>, - 1, 0))"
  by (simp add: demo_defs eval_defs step_defs train_defs Let_def str_nat.simps enumerate_eq_zip)

lemma demo_train_loop: "\<not> isl (train_loop demo_env demo_args demo_world)"
  by (simp add: demo_defs eval_defs step_defs train_defs train_loop_def Let_def str_nat.simps
      enumerate_eq_zip upt_rec)

text \<open>
  C10. In a training run (train, with a window N of at least 1 and an empty gradient
  buffer at the start) \<open>global_step\<close> is set to 0 once, before the first epoch, and never
  reset: at the end it is the number of batches of all epochs, and after the first k
  epochs (each with its dev evaluation and checkpoint decision) the number of batches of
  those k epochs. The losses waiting in the gradient buffer are that count modulo N, so
  the residue of an epoch that ends inside a window is neither applied nor cleared: the
  run goes on from that state into the next epoch. The optimizer and the scheduler have
  stepped once for every N batches of the whole run, not of each epoch.
\<close>

theorem global_step_spans_epochs:
  assumes window: "1 \<le> gradient_accumulation_steps a"
    and fresh: "pending (grad w) = 0"
    and run: "train_loop env a w = Inr (w', best', g')"
    and prefix: "k \<le> nat (num_train_epochs a)"
  shows "g' = (\<Sum>e\<leftarrow>[0..<nat (num_train_epochs a)]. int (length (train_batches env e)))
       \<and> int (pending (grad w')) = g' mod gradient_accumulation_steps a
       \<and> int (num_steps (params w')) =
           int (num_steps (params w)) + g' div gradient_accumulation_steps a
       \<and> int (sched_steps w') = g' div gradient_accumulation_steps a
       \<and> (\<exists>wk bk gk.
             for_loop (train_epoch env a) [0..<k] (w\<lparr>sched_steps := 0\<rparr>, - 1, 0) =
               Inr (wk, bk, gk)
           \<and> for_loop (train_epoch env a) [k..<nat (num_train_epochs a)] (wk, bk, gk) =
               Inr (w', best', g')
           \<and> gk = (\<Sum>e\<leftarrow>[0..<k]. int (length (train_batches env e)))
           \<and> int (pending (grad wk)) = gk mod gradient_accumulation_steps a
           \<and> int (num_steps (params wk)) =
               int (num_steps (params w)) + gk div gradient_accumulation_steps a)"
proof -
  let ?n = "gradient_accumulation_steps a"
  let ?start = "(w\<lparr>sched_steps := 0\<rparr>, - 1 :: real, 0 :: int)"
  from window run have loop:
    "for_loop (train_epoch env a) [0..<nat (num_train_epochs a)] ?start = Inr (w', best', g')"
    by (simp add: train_loop_def)
  have inv: "int (pending (grad (w\<lparr>sched_steps := 0\<rparr>))) = 0 mod ?n"
    using fresh by simp
  from epochs_accounting [OF window loop inv] have whole:
    "g' = (\<Sum>e\<leftarrow>[0..<nat (num_train_epochs a)]. int (length (train_batches env e)))
     \<and> int (pending (grad w')) = g' mod ?n
     \<and> int (num_steps (params w')) = int (num_steps (params w)) + g' div ?n
     \<and> int (sched_steps w') = g' div ?n"
    by simp
  from prefix have "[0..<nat (num_train_epochs a)] = [0..<k] @ [k..<nat (num_train_epochs a)]"
    using upt_add_eq_append [of 0 k "nat (num_train_epochs a) - k"] by simp
  with loop obtain s1 where
    first: "for_loop (train_epoch env a) [0..<k] ?start = Inr s1" and
    rest: "for_loop (train_epoch env a) [k..<nat (num_train_epochs a)] s1 = Inr (w', best', g')"
    by (metis for_loop_split)
  obtain wk bk gk where s1: "s1 = (wk, bk, gk)"
    by (cases s1)
  from epochs_accounting [OF window first [unfolded s1] inv] have part:
    "gk = (\<Sum>e\<leftarrow>[0..<k]. int (length (train_batches env e)))
     \<and> int (pending (grad wk)) = gk mod ?n
     \<and> int (num_steps (params wk)) = int (num_steps (params w)) + gk div ?n"
    by simp
  from whole part first rest s1 show ?thesis
    by blast
qed

theorem global_step_spans_epochs_witness:
  "1 \<le> gradient_accumulation_steps demo_args \<and> pending (grad demo_world) = 0
   \<and> (1 :: nat) \<le> nat (num_train_epochs demo_args)
   \<and> (\<exists>w' best' w1 b1.
         train_loop demo_env demo_args demo_world = Inr (w', best', 6)
       \<and> pending (grad w') = 0 \<and> num_steps (params w') = 3
       \<and> for_loop (train_epoch demo_env demo_args) [0..<1]
            (demo_world\<lparr>sched_steps := 0\<rparr>, - 1, 0) = Inr (w1, b1, 3)
       \<and> pending (grad w1) = 1 \<and> num_steps (params w1) = 1)"
proof -
  have window: "1 \<le> gradient_accumulation_steps demo_args"
    by (simp add: demo_args_def)
  have fresh: "pending (grad demo_world) = 0"
    by (simp add: demo_world_def)
  have prefix: "(1 :: nat) \<le> nat (num_train_epochs demo_args)"
    by (simp add: demo_args_def)
  have n: "gradient_accumulation_steps demo_args = 2"
    and e: "nat (num_train_epochs demo_args) = 2"
    and p: "params demo_world = Pretrained ''baseline-mixed''"
    and b: "train_batches demo_env e = [1, 2, 3]" for e
    by (simp_all add: demo_args_def demo_world_def demo_env_def)
  have u1: "[0..<1] = [0]" and u2: "[0..<2] = [0, 1]"
    by (simp_all add: upt_rec)
  from demo_train_loop obtain w' best' g' where
    run: "train_loop demo_env demo_args demo_world = Inr (w', best', g')"
    by (metis result_cases prod_cases3)
  from global_step_spans_epochs [OF window fresh run prefix] obtain wk bk gk where
    final: "g' = 6 \<and> pending (grad w') = 0 \<and> num_steps (params w') = 3" and
    first: "for_loop (train_epoch demo_env demo_args) [0..<1]
              (demo_world\<lparr>sched_steps := 0\<rparr>, - 1, 0) = Inr (wk, bk, gk)" and
    part: "gk = 3 \<and> pending (grad wk) = 1 \<and> num_steps (params wk) = 1"
    by (auto simp add: n e p b u1 u2)
  from window fresh prefix run final first part show ?thesis
    by blast
qed

theorem checkpoint_selection_witness:
  "\<exists>w g w' g'.
      for_loop (train_epoch demo_env demo_args) [0] (demo_world\<lparr>sched_steps := 0\<rparr>, - 1, 0) =
        Inr (w, 1 / 2, g)
    \<and> for_loop (train_epoch demo_env demo_args) ([0] @ [1]) (demo_world\<lparr>sched_steps := 0\<rparr>, - 1, 0) =
        Inr (w', 1 / 2, g')
    \<and> read_file w' (output_dir demo_args) ''best_model'' = Inr (StateDict (params w'))
    \<and> num_steps (params w) = 1 \<and> num_steps (params w') = 3"
proof -
  let ?s0 = "(demo_world\<lparr>sched_steps := 0\<rparr>, - 1 :: real, 0 :: int)"
  from demo_run_two obtain w' best' g' where
    run: "for_loop (train_epoch demo_env demo_args) ([0] @ [1]) ?s0 = Inr (w', best', g')"
    by (metis result_cases prod_cases3 append_Cons append_Nil)
  from checkpoint_selection [OF run] obtain w best g v w3 where
    before: "for_loop (train_epoch demo_env demo_args) [0] ?s0 = Inr (w, best, g)" and
    u: "epoch_until_checkpoint demo_env demo_args 1 (w, g) = Inr (v, w3, g')" and
    mono: "best \<le> best'" and
    tie: "best \<le> v \<longrightarrow> best' = v
           \<and> write_file (output_dir demo_args) ''best_model'' (StateDict (params w3)) w3 = Inr w'
           \<and> read_file w' (output_dir demo_args) ''best_model'' = Inr (StateDict (params w3))" and
    lower: "v < best \<longrightarrow> best' = best \<and> w' = w3"
    by blast
  have v: "v = 1 / 2"
    using u by (rule demo_epoch_verifiability)
  from before obtain v0 w30 where
    u0: "epoch_until_checkpoint demo_env demo_args 0 (demo_world\<lparr>sched_steps := 0\<rparr>, 0) = Inr (v0, w30, g)" and
    c0: "checkpoint_decision demo_args v0 (w30, - 1) = Inr (w, best)"
    by (auto simp add: train_epoch_def split: sum.splits)
  have "v0 = 1 / 2"
    using u0 by (rule demo_epoch_verifiability)
  with checkpoint_decision_cases(2) [OF c0] have best: "best = 1 / 2"
    by simp
  with v tie have best': "best' = 1 / 2" and
    wr: "write_file (output_dir demo_args) ''best_model'' (StateDict (params w3)) w3 = Inr w'" and
    rd: "read_file w' (output_dir demo_args) ''best_model'' = Inr (StateDict (params w3))"
    by simp_all
  from write_file_torch [OF wr] have same: "params w' = params w3"
    by (simp add: torch_state_def)
  have window: "1 \<le> gradient_accumulation_steps demo_args"
    by (simp add: demo_args_def)
  have inv: "int (pending (grad (demo_world\<lparr>sched_steps := 0\<rparr>))) = 0 mod gradient_accumulation_steps demo_args"
    by (simp add: demo_world_def)
  have n: "gradient_accumulation_steps demo_args = 2" and p: "params demo_world = Pretrained ''baseline-mixed''"
    and b: "train_batches demo_env e = [1, 2, 3]" for e
    by (simp_all add: demo_args_def demo_world_def demo_env_def)
  from epochs_accounting [OF window before inv] have s1: "num_steps (params w) = 1"
    by (auto simp add: n p b)
  from epochs_accounting [OF window run inv] have s2: "num_steps (params w') = 3"
    by (auto simp add: n p b)
  from before run best best' rd same s1 s2 show ?thesis
    by auto
qed

subsection \<open>main: the output directory and the final evaluation\<close>

text \<open>
  The warning of line 189 is not printed for every output directory that exists and is
  not empty: without \<^verbatim>\<open>--do_train\<close> the run prints only the parameter count.
\<close>

theorem warning_needs_do_train:
  "dirs used_world (output_dir (select_output_dir demo_env eval_only_args used_world)) =
     Some (Directory [(''notes.txt'', Opaque)])
   \<and> map_sum id stdout (main demo_env eval_only_args used_world) = Inr [PrintParamCount]"
  by (simp add: eval_only_args_def used_world_def demo_defs main_defs str_int_def str_nat.simps Let_def print_line_def)

text \<open>
  C9, as the code has it. When the output directory (after lines 184-186) exists as a
  directory, the program prints the warning exactly when the directory is not empty and
  \<^verbatim>\<open>--do_train\<close> is set, changes nothing else, and goes on with the rest of main
  (lines 191-219) in every case.
\<close>

theorem output_dir_warning_is_advisory:
  assumes "dirs w (output_dir (select_output_dir env a w)) = Some (Directory entries)"
  shows "main env a w =
           main_after_check env (select_output_dir env a w)
             (if entries \<noteq> [] \<and> do_train a
              then print_line (PrintOutputDirExists (output_dir (select_output_dir env a w))) w
              else w)"
proof -
  have "do_train (select_output_dir env a w) = do_train a"
    by (simp add: select_output_dir_def)
  with assms show ?thesis
    by (simp add: main_def output_dir_warning_def Let_def)
qed

lemma rerun_dir:
  "output_dir (select_output_dir demo_env demo_args rerun_world) =
     ''out/propara-conversion_baseline-mixed_epochs_2_lr_5e-06_seed_42''"
  by (simp add: demo_defs select_output_dir_def new_out_dir_def str_int_def str_nat.simps)

theorem output_dir_warning_is_advisory_witness:
  "dirs rerun_world (output_dir (select_output_dir demo_env demo_args rerun_world)) =
     Some (Directory [(''best_model'', StateDict (Pretrained ''baseline-mixed''))])
   \<and> main demo_env demo_args rerun_world =
       main_after_check demo_env (select_output_dir demo_env demo_args rerun_world)
         (print_line
            (PrintOutputDirExists
               ''out/propara-conversion_baseline-mixed_epochs_2_lr_5e-06_seed_42'')
            rerun_world)"
proof -
  have d: "dirs rerun_world (output_dir (select_output_dir demo_env demo_args rerun_world)) =
     Some (Directory [(''best_model'', StateDict (Pretrained ''baseline-mixed''))])"
    unfolding rerun_dir by (simp add: rerun_world_def)
  have t: "do_train demo_args"
    by (simp add: demo_args_def)
  from output_dir_warning_is_advisory [OF d] d t show ?thesis
    by (simp add: rerun_dir)
qed

text \<open>
  C2 at a run with \<^verbatim>\<open>--do_train --do_eval\<close>. The three dev evaluations of the
  training loop run in evaluation mode with gradient tracking off; the final test
  evaluation of line 216 runs in evaluation mode (left over from line 130) but with
  gradient tracking on, since main neither calls \<^verbatim>\<open>model.eval()\<close> nor enters
  \<^verbatim>\<open>torch.no_grad()\<close> around it.
\<close>

theorem final_test_evaluation_tracks_gradients:
  "map_sum id inference_log (main demo_env train_eval_args demo_world) =
     Inr [(''dev_conversion'', 0, False, False),
          (''dev_conversion'', 1, False, False),
          (''dev_conversion'', 2, False, False),
          (''test_conversion'', - 1, False, True)]"
  by (simp add: train_eval_args_def demo_defs main_defs train_defs eval_defs step_defs
      str_nat.simps Let_def enumerate_eq_zip upt_rec)

subsection \<open>The sequences built for one story variant\<close>

text \<open>
  The token ids are the start marker, the question tokens, the tokens of every sentence
  and the end marker. How long the timestep sequence is rests on make_timestep_sequence,
  which this file only calls.
\<close>

lemma para_ids_length:
  "length (para_ids env question_tokens sentence_tokens) =
     length question_tokens + length (concat sentence_tokens) + 2"
proof -
  have "foldl (\<lambda>para sent. para @ sent) q ss = q @ concat ss" for q :: "string list" and ss
    by (induction ss arbitrary: q) simp_all
  then show ?thesis
    by (simp add: para_ids_def)
qed

lemma timestep_ids_length:
  "length (timestep_ids env question_tokens sentence_tokens) =
     length (make_timestep_sequence env question_tokens sentence_tokens) - 1"
  by (simp add: timestep_ids_def)

subsection \<open>The flags under which test_model_conversion runs the model\<close>

text \<open>
  test_model_conversion sets neither flag itself: every forward pass runs under the
  flags its caller left. The dev evaluations of train switch both off first; the final
  evaluation of main runs under whatever flags main has at that point.
\<close>

lemma entity_step_log:
  assumes "entity_step env name it smp x (sp, w) = Inr (sp', w')"
  shows "inference_log w' = inference_log w @ [(name, it, training w, grad_enabled w)]"
  using assms
  by (cases x)
    (auto simp add: entity_step_def Let_def split: sum.splits prod.splits list.splits)

lemma entity_loop_log:
  assumes "for_loop (entity_step env name it smp) xs (sp, w) = Inr (sp', w')"
  shows "logged_with name it w w'"
proof -
  have "(\<lambda>(sp, v). torch_state v = torch_state w \<and> logged_with name it w v) (sp', w')"
  proof (rule for_loop_preserves [where body = "entity_step env name it smp", OF _ assms])
    fix x s s'
    assume step: "entity_step env name it smp x s = Inr s'"
      and inv: "(\<lambda>(sp, v). torch_state v = torch_state w \<and> logged_with name it w v) s"
    obtain sp1 w1 where s: "s = (sp1, w1)" by (cases s)
    obtain sp2 w2 where s': "s' = (sp2, w2)" by (cases s')
    from inv s obtain k where
      t1: "torch_state w1 = torch_state w" and
      l1: "inference_log w1 = inference_log w @ replicate k (name, it, training w, grad_enabled w)"
      by (auto simp add: logged_with_def)
    from step s s' have t2: "torch_state w2 = torch_state w1"
      by (auto dest: entity_step_torch)
    from step s s' have
      "inference_log w2 = inference_log w1 @ [(name, it, training w1, grad_enabled w1)]"
      by (auto dest: entity_step_log)
    with l1 t1 have
      "inference_log w2 = inference_log w @ replicate (Suc k) (name, it, training w, grad_enabled w)"
      by (simp add: torch_state_def replicate_append_same)
    then have "logged_with name it w w2"
      unfolding logged_with_def by blast
    with t1 t2 s' show "(\<lambda>(sp, v). torch_state v = torch_state w \<and> logged_with name it w v) s'"
      by simp
  next
    show "(\<lambda>(sp, v). torch_state v = torch_state w \<and> logged_with name it w v) (sp, w)"
      by (simp add: logged_with_def)
  qed
  then show ?thesis by simp
qed

lemma logged_with_trans:
  assumes "logged_with name it w w1" and "logged_with name it w1 w2"
    and "torch_state w1 = torch_state w"
  shows "logged_with name it w w2"
proof -
  from assms obtain k j where
    "inference_log w1 = inference_log w @ replicate k (name, it, training w, grad_enabled w)"
    "inference_log w2 = inference_log w1 @ replicate j (name, it, training w, grad_enabled w)"
    by (auto simp add: logged_with_def torch_state_def)
  then have "inference_log w2 =
      inference_log w @ replicate (k + j) (name, it, training w, grad_enabled w)"
    by (simp add: replicate_add)
  then show ?thesis unfolding logged_with_def by blast
qed

lemma sample_step_log:
  "sample_step env name it smp (ap, w) = Inr (ap', w') \<Longrightarrow> logged_with name it w w'"
  by (auto simp add: sample_step_def dest: entity_loop_log split: sum.splits)

lemma sample_loop_log:
  assumes "for_loop (sample_step env name it) xs (ap, w) = Inr (ap', w')"
  shows "logged_with name it w w'"
proof -
  have "(\<lambda>(ap, v). torch_state v = torch_state w \<and> logged_with name it w v) (ap', w')"
  proof (rule for_loop_preserves [where body = "sample_step env name it", OF _ assms])
    fix x s s'
    assume step: "sample_step env name it x s = Inr s'"
      and inv: "(\<lambda>(ap, v). torch_state v = torch_state w \<and> logged_with name it w v) s"
    obtain ap1 w1 where s: "s = (ap1, w1)" by (cases s)
    obtain ap2 w2 where s': "s' = (ap2, w2)" by (cases s')
    from inv s have t1: "torch_state w1 = torch_state w" and l1: "logged_with name it w w1"
      by auto
    from step s s' have t2: "torch_state w2 = torch_state w1" and l2: "logged_with name it w1 w2"
      by (auto dest: sample_step_torch sample_step_log)
    from logged_with_trans [OF l1 l2 t1] t1 t2 s'
    show "(\<lambda>(ap, v). torch_state v = torch_state w \<and> logged_with name it w v) s'"
      by simp
  next
    show "(\<lambda>(ap, v). torch_state v = torch_state w \<and> logged_with name it w v) (ap, w)"
      by (simp add: logged_with_def)
  qed
  then show ?thesis by simp
qed

lemma write_file_log: "write_file d n f w = Inr w' \<Longrightarrow> inference_log w' = inference_log w"
  by (auto simp add: write_file_def split: option.splits dir.splits)

lemma append_line_log: "append_line d n l w = Inr w' \<Longrightarrow> inference_log w' = inference_log w"
  by (auto simp add: append_line_def dest: write_file_log split: option.splits dir.splits)

lemma test_model_conversion_log:
  assumes "test_model_conversion env a samples name it w = Inr (r, w')"
  shows "logged_with name it w w'"
proof -
  from assms obtain ap w1 w2 where
    l: "for_loop (sample_step env name it) samples ([], w) = Inr (ap, w1)" and
    wr: "write_file (output_dir a) (name @ ''_'' @ str_int it @ ''_output.json'')
           (RawPredictions ap) w1 = Inr w2" and
    w': "inference_log w' = inference_log w2"
    by (auto simp add: test_model_conversion_def Let_def print_line_def
        split: sum.splits prod.splits)
  from sample_loop_log [OF l] write_file_log [OF wr] w' show ?thesis
    by (simp add: logged_with_def)
qed

lemma dev_evaluation_inference_flags:
  assumes "dev_evaluation env a it w = Inr (v, w')"
  shows "\<exists>k. inference_log w' =
           inference_log w @ replicate k (''dev_conversion'', it, False, False)"
proof -
  from assms obtain r w1 l where
    t: "test_model_conversion env a (dev_set env) ''dev_conversion'' it
          (w\<lparr>training := False, grad_enabled := False\<rparr>) = Inr (r, w1)" and
    ap: "append_line (output_dir a) ''results_epoch_dev.json'' l
          (w1\<lparr>grad_enabled := grad_enabled w\<rparr>) = Inr w'"
    by (auto simp add: dev_evaluation_def no_grad_def split: sum.splits prod.splits)
  from test_model_conversion_log [OF t] append_line_log [OF ap] show ?thesis
    by (simp add: logged_with_def)
qed

lemma final_evaluation_inference_flags:
  assumes "final_evaluation env a w = Inr w'"
  shows "\<exists>k. inference_log w' =
           inference_log w @ replicate k (''test_conversion'', - 1, training w, grad_enabled w)"
proof -
  from assms obtain p r w1 l where
    t: "test_model_conversion env a (test_set env) ''test_conversion'' (- 1)
          (w\<lparr>params := p\<rparr>) = Inr (r, w1)" and
    ap: "append_line (output_dir a) ''final_test_results.json'' l w1 = Inr w'"
    by (auto simp add: final_evaluation_def split: sum.splits prod.splits file_content.splits)
  from test_model_conversion_log [OF t] append_line_log [OF ap] show ?thesis
    by (simp add: logged_with_def)
qed

subsection \<open>Seeding\<close>












end
